theory Spec2Isabelle
  imports Main "HOL-Library.Char_ord" "HOL-Library.List_Lexorder" "HOL-Library.Word"
    "HOL-Library.Monad_Syntax"
begin

unbundle bit_operations_syntax

section \<open>Errors and outcomes\<close>

text \<open>
  Go reports failure in two ways: an \<open>error\<close> value that is returned, and a panic
  that unwinds the goroutine (and, unrecovered, ends the process). Neither bbolt's
  \<open>Update\<close>/\<open>View\<close> nor the store recovers from a panic, so a panic inside a
  transaction body is the outcome of the whole call.
\<close>

datatype error =
    ParseError
  | UnsupportedValueError
  | UnmarshalError
  | ErrKeyRequired
  | ErrKeyTooLarge
  | ErrValueTooLarge
  | ErrBucketNameRequired
  | CreateBucketFailed error
  | ErrDatabaseNotOpen
  | ErrCommitFailed

datatype 'a outcome = Panic | Return 'a

section \<open>Time: instants, truncation and the RFC 3339 layout\<close>

text \<open>
  A \<open>time.Time\<close> is an instant together with a location. The instant is kept as
  nanoseconds since the zero time 0001-01-01T00:00:00Z, the origin \<open>Truncate\<close>
  counts from. A location maps an instant (in seconds since the zero time) to the offset
  east of UTC, in seconds, in effect at that instant.
\<close>

type_synonym Duration = int

type_synonym Location = "int \<Rightarrow> int"

record Time =
  wall :: int
  loc :: Location

definition UTC :: Location where
  "UTC = (\<lambda>_. 0)"

definition FixedZone :: "int \<Rightarrow> Location" where
  "FixedZone off = (\<lambda>_. off)"

definition Second :: Duration where
  "Second = 1000000000"

definition Minute :: Duration where
  "Minute = 60 * Second"

definition Add :: "Time \<Rightarrow> Duration \<Rightarrow> Time" where
  "Add t d = t\<lparr>wall := wall t + d\<rparr>"

text \<open>\<open>Truncate\<close> rounds down to a multiple of \<open>d\<close> since the zero time; for
  \<open>d \<le> 0\<close> it returns the time unchanged.\<close>

definition Truncate :: "Time \<Rightarrow> Duration \<Rightarrow> Time" where
  "Truncate t d = (if d \<le> 0 then t else t\<lparr>wall := wall t - wall t mod d\<rparr>)"

definition After :: "Time \<Rightarrow> Time \<Rightarrow> bool" where
  "After t u = (wall u < wall t)"

definition absSec :: "Time \<Rightarrow> int" where
  "absSec t = wall t div Second"

definition zoneOffset :: "Time \<Rightarrow> int" where
  "zoneOffset t = loc t (absSec t)"

subsection \<open>The civil calendar\<close>

definition isLeap :: "int \<Rightarrow> bool" where
  "isLeap y = (y mod 4 = 0 \<and> (y mod 100 \<noteq> 0 \<or> y mod 400 = 0))"

text \<open>Days from 0001-01-01 to the first day of year \<open>y\<close>.\<close>

definition daysSinceEpoch :: "int \<Rightarrow> int" where
  "daysSinceEpoch y = 365 * (y - 1) + (y - 1) div 4 - (y - 1) div 100 + (y - 1) div 400"

text \<open>Days of a year before month \<open>m\<close> (1 to 13).\<close>

definition daysBefore :: "bool \<Rightarrow> int \<Rightarrow> int" where
  "daysBefore leap m =
     (if m \<le> 1 then 0
      else if m = 2 then 31
      else (if leap then 1 else 0) +
        (if m = 3 then 59 else if m = 4 then 90 else if m = 5 then 120
         else if m = 6 then 151 else if m = 7 then 181 else if m = 8 then 212
         else if m = 9 then 243 else if m = 10 then 273 else if m = 11 then 304
         else if m = 12 then 334 else 365))"

definition daysIn :: "int \<Rightarrow> int \<Rightarrow> int" where
  "daysIn m y = daysBefore (isLeap y) (m + 1) - daysBefore (isLeap y) m"

text \<open>
  The year and the day within the year of a day number (days since 0001-01-01):
  cut off 400-year cycles, then 100-year cycles (the last one a day longer), then
  4-year cycles, then years (the last one a day longer).
\<close>

definition absYear :: "int \<Rightarrow> int \<times> int" where
  "absYear days =
     (let n400 = days div 146097;
          d1 = days - 146097 * n400;
          n100 = min 3 (d1 div 36524);
          d2 = d1 - 36524 * n100;
          n4 = d2 div 1461;
          d3 = d2 - 1461 * n4;
          n1 = min 3 (d3 div 365);
          yday = d3 - 365 * n1
      in (400 * n400 + 100 * n100 + 4 * n4 + n1 + 1, yday))"

definition monthOf :: "bool \<Rightarrow> int \<Rightarrow> int" where
  "monthOf leap yday =
     (if yday < daysBefore leap 2 then 1 else if yday < daysBefore leap 3 then 2
      else if yday < daysBefore leap 4 then 3 else if yday < daysBefore leap 5 then 4
      else if yday < daysBefore leap 6 then 5 else if yday < daysBefore leap 7 then 6
      else if yday < daysBefore leap 8 then 7 else if yday < daysBefore leap 9 then 8
      else if yday < daysBefore leap 10 then 9 else if yday < daysBefore leap 11 then 10
      else if yday < daysBefore leap 12 then 11 else 12)"

definition absDate :: "int \<Rightarrow> int \<times> int \<times> int" where
  "absDate days =
     (let (year, yday) = absYear days;
          month = monthOf (isLeap year) yday
      in (year, month, yday - daysBefore (isLeap year) month + 1))"

subsection \<open>Formatting with the layout RFC3339\<close>

definition digit :: "int \<Rightarrow> char" where
  "digit n = char_of (48 + n)"

fun utoa :: "nat \<Rightarrow> string" where
  "utoa n = (if n < 10 then [digit (int n)] else utoa (n div 10) @ [digit (int (n mod 10))])"

declare utoa.simps [simp del]

text \<open>\<open>appendInt x width\<close>: the decimal digits of \<open>x\<close>, zero-padded to \<open>width\<close>,
  after a minus sign when \<open>x\<close> is negative.\<close>

definition appendInt :: "int \<Rightarrow> nat \<Rightarrow> string" where
  "appendInt x width =
     (let s = utoa (nat \<bar>x\<bar>)
      in (if x < 0 then ''-'' else '''') @ replicate (width - length s) (CHR ''0'') @ s)"

text \<open>The zone field \<open>Z07:00\<close>: \<open>Z\<close> for offset zero, else sign, hours and minutes
  (Go's division truncates toward zero).\<close>

definition zoneText :: "int \<Rightarrow> string" where
  "zoneText off =
     (if off = 0 then ''Z''
      else let zone = (if off < 0 then - ((- off) div 60) else off div 60)
           in (if zone < 0 then ''-'' else ''+'') @ appendInt (\<bar>zone\<bar> div 60) 2 @ '':'' @
              appendInt (\<bar>zone\<bar> mod 60) 2)"

text \<open>The date and time of day, \<open>2006-01-02T15:04:05\<close>, of a count of seconds since
  0001-01-01T00:00:00 in the zone displayed.\<close>

definition civilText :: "int \<Rightarrow> string" where
  "civilText lsec =
     (let days = lsec div 86400;
          sod = lsec mod 86400;
          (year, month, day) = absDate days
      in appendInt year 4 @ ''-'' @ appendInt month 2 @ ''-'' @ appendInt day 2 @ ''T'' @
         appendInt (sod div 3600) 2 @ '':'' @ appendInt (sod mod 3600 div 60) 2 @ '':'' @
         appendInt (sod mod 60) 2)"

text \<open>\<open>t.Format(time.RFC3339)\<close>: the time is displayed in its own location; the
  layout has no fractional seconds, so they are dropped.\<close>

definition Format :: "Time \<Rightarrow> string" where
  "Format t = civilText (absSec t + zoneOffset t) @ zoneText (zoneOffset t)"

subsection \<open>Parsing with the layout RFC3339\<close>

text \<open>
  The parser accepts the strict profile that \<open>Format\<close> writes: four-digit year,
  two-digit fields, no fractional second, zone \<open>Z\<close> or a signed \<open>hh:mm\<close> offset,
  each field in range and the day valid for its month. (The library is more lenient in
  places, e.g. it tolerates a fractional second; the store never writes such keys.)
\<close>

definition digitVal :: "char \<Rightarrow> int option" where
  "digitVal c = (if CHR ''0'' \<le> c \<and> c \<le> CHR ''9'' then Some (of_char c - 48) else None)"

fun getnum :: "nat \<Rightarrow> int \<Rightarrow> string \<Rightarrow> (int \<times> string) option" where
  "getnum 0 acc s = Some (acc, s)"
| "getnum (Suc n) acc [] = None"
| "getnum (Suc n) acc (c # s) =
     (case digitVal c of None \<Rightarrow> None | Some d \<Rightarrow> getnum n (10 * acc + d) s)"

fun skip :: "char \<Rightarrow> string \<Rightarrow> string option" where
  "skip c [] = None"
| "skip c (x # s) = (if x = c then Some s else None)"

definition parseZone :: "string \<Rightarrow> int option" where
  "parseZone s =
     (if s = ''Z'' then Some 0
      else do {
        sg \<leftarrow> (if s = [] then None else Some (hd s));
        s1 \<leftarrow> (if sg = CHR ''+'' \<or> sg = CHR ''-'' then Some (tl s) else None);
        (hh, s2) \<leftarrow> getnum 2 0 s1;
        s3 \<leftarrow> skip (CHR '':'') s2;
        (mm, s4) \<leftarrow> getnum 2 0 s3;
        if s4 \<noteq> [] \<or> 23 < hh \<or> 59 < mm then None
        else Some ((if sg = CHR ''-'' then - 1 else 1) * ((hh * 60 + mm) * 60))
      })"

definition parseCivil :: "string \<Rightarrow> (int \<times> string) option" where
  "parseCivil s = do {
     (year, s1) \<leftarrow> getnum 4 0 s;
     s2 \<leftarrow> skip (CHR ''-'') s1;
     (month, s3) \<leftarrow> getnum 2 0 s2;
     s4 \<leftarrow> skip (CHR ''-'') s3;
     (day, s5) \<leftarrow> getnum 2 0 s4;
     s6 \<leftarrow> skip (CHR ''T'') s5;
     (hour, s7) \<leftarrow> getnum 2 0 s6;
     s8 \<leftarrow> skip (CHR '':'') s7;
     (minute, s9) \<leftarrow> getnum 2 0 s8;
     s10 \<leftarrow> skip (CHR '':'') s9;
     (sec, s11) \<leftarrow> getnum 2 0 s10;
     if month < 1 \<or> 12 < month \<or> day < 1 \<or> daysIn month year < day \<or>
        23 < hour \<or> 59 < minute \<or> 59 < sec
     then None
     else Some ((daysSinceEpoch year + daysBefore (isLeap year) month + day - 1) * 86400 +
                hour * 3600 + minute * 60 + sec, s11)
   }"

text \<open>\<open>time.Parse(time.RFC3339, s)\<close>. The result carries the zone that was read.\<close>

definition Parse :: "string \<Rightarrow> error + Time" where
  "Parse s =
     (case parseCivil s of
        None \<Rightarrow> Inl ParseError
      | Some (lsec, z) \<Rightarrow>
          (case parseZone z of
             None \<Rightarrow> Inl ParseError
           | Some off \<Rightarrow> Inr \<lparr>wall = (lsec - off) * Second, loc = FixedZone off\<rparr>))"

section \<open>Values and their JSON encoding\<close>

text \<open>
  A \<open>float32\<close> is kept as its IEEE 754 single-precision bit pattern. Field-wise
  equality of bit patterns implies Go's \<open>==\<close> on every value that can be stored.
\<close>

type_synonym float32 = "32 word"

record SensorValues =
  Temperature :: float32
  Humidity :: float32

record TimedSensorValues =
  Timestamp :: Time
  Values :: SensorValues

text \<open>Infinities and NaNs are the bit patterns whose exponent field is all ones.\<close>

definition isFinite :: "float32 \<Rightarrow> bool" where
  "isFinite f = (drop_bit 23 f AND 0xFF \<noteq> 0xFF)"

text \<open>
  The text package \<open>encoding/json\<close> is a parameter of the model, in two parts: the
  decimal rendering of a finite \<open>float32\<close> (\<open>ftoa\<close>) and the decoder of a stored
  value into a \<open>SensorValues\<close> (\<open>Unmarshal\<close>).
\<close>

record json =
  ftoa :: "float32 \<Rightarrow> string"
  Unmarshal :: "string \<Rightarrow> error + SensorValues"

text \<open>\<open>json.Marshal(values)\<close>: the two exported fields in declaration order; a
  field that is an infinity or a NaN is an \<open>UnsupportedValueError\<close>.\<close>

definition Marshal :: "json \<Rightarrow> SensorValues \<Rightarrow> error + string" where
  \<open>Marshal J values =
     (if isFinite (Temperature values) \<and> isFinite (Humidity values)
      then Inr (''{"Temperature":'' @ ftoa J (Temperature values) @
                '',"Humidity":'' @ ftoa J (Humidity values) @ ''}'')
      else Inl UnsupportedValueError)\<close>

section \<open>The key-value engine\<close>

text \<open>
  A bucket is its entries in ascending key order (byte-wise lexicographic, the order of
  the engine's cursor). The database maps the name of a top-level bucket to its nested
  buckets, by name; a missing bucket is what the engine's \<open>Bucket\<close> lookup answers
  with a nil pointer.
\<close>

type_synonym bucket = "(string \<times> string) list"

type_synonym db = "string \<rightharpoonup> (string \<rightharpoonup> bucket)"

text \<open>What one call meets outside the program: the wall clock, the local time zone,
  and whether the engine can begin and commit the call's transaction.\<close>

record world =
  clock :: int
  Local :: Location
  beginError :: "error option"
  commitError :: "error option"

definition Now :: "world \<Rightarrow> Time" where
  "Now w = \<lparr>wall = clock w, loc = Local w\<rparr>"

fun putEntry :: "string \<Rightarrow> string \<Rightarrow> bucket \<Rightarrow> bucket" where
  "putEntry k v [] = [(k, v)]"
| "putEntry k v ((k', v') # b) =
     (if k < k' then (k, v) # (k', v') # b
      else if k = k' then (k, v) # b
      else (k', v') # putEntry k v b)"

definition MaxKeySize :: nat where
  "MaxKeySize = 32768"

definition MaxValueSize :: nat where
  "MaxValueSize = 2147483646"

definition Put :: "bucket \<Rightarrow> string \<Rightarrow> string \<Rightarrow> error + bucket" where
  "Put b key val =
     (if length key = 0 then Inl ErrKeyRequired
      else if MaxKeySize < length key then Inl ErrKeyTooLarge
      else if MaxValueSize < length val then Inl ErrValueTooLarge
      else Inr (putEntry key val b))"

text \<open>\<open>Cursor.Seek\<close>: the entries from the first key not below \<open>seek\<close> on.
  \<open>Cursor.Last\<close>: the last entry, or a nil (empty) key and value for an empty bucket.\<close>

definition Seek :: "bucket \<Rightarrow> string \<Rightarrow> bucket" where
  "Seek b seek = dropWhile (\<lambda>(k, v). k < seek) b"

definition Last :: "bucket \<Rightarrow> string \<times> string" where
  "Last b = (if b = [] then ([], []) else last b)"

text \<open>\<open>DB.Update\<close>: a failed begin returns its error without running the body; a
  body that returns an error, or a failed commit, rolls back; a panic of the body
  propagates.\<close>

definition Update :: "world \<Rightarrow> db \<Rightarrow> (db \<Rightarrow> (error + db) outcome) \<Rightarrow> (error option \<times> db) outcome" where
  "Update w d fn =
     (case beginError w of
        Some e \<Rightarrow> Return (Some e, d)
      | None \<Rightarrow>
         (case fn d of
            Panic \<Rightarrow> Panic
          | Return (Inl e) \<Rightarrow> Return (Some e, d)
          | Return (Inr d') \<Rightarrow>
             (case commitError w of
                Some e \<Rightarrow> Return (Some e, d)
              | None \<Rightarrow> Return (None, d'))))"

section \<open>The sensor store\<close>

definition sensorBucket :: string where
  "sensorBucket = ''sensors''"

record Store =
  resolution :: Duration
  rootBucket :: string

definition New :: "world \<Rightarrow> db \<Rightarrow> Duration \<Rightarrow> ((error + Store) \<times> db) outcome" where
  "New w d res =
     (case Update w d (\<lambda>tx. Return (Inr (case tx sensorBucket of
                                            None \<Rightarrow> tx(sensorBucket \<mapsto> Map.empty)
                                          | Some _ \<Rightarrow> tx))) of
        Panic \<Rightarrow> Panic
      | Return (None, d') \<Rightarrow> Return (Inr \<lparr>resolution = res, rootBucket = sensorBucket\<rparr>, d')
      | Return (Some e, d') \<Rightarrow> Return (Inl e, d'))"

text \<open>\<open>StoreValuesChannel\<close>, up to the start of the writer routine: the sensor's
  bucket is created under the root bucket unless it exists.\<close>

definition StoreValuesChannel :: "Store \<Rightarrow> world \<Rightarrow> db \<Rightarrow> string \<Rightarrow> (error option \<times> db) outcome" where
  "StoreValuesChannel s w d sensorID =
     Update w d (\<lambda>tx.
       case tx (rootBucket s) of
         None \<Rightarrow> Panic
       | Some root \<Rightarrow>
           if length sensorID = 0 then Return (Inl (CreateBucketFailed ErrBucketNameRequired))
           else (case root sensorID of
                   Some _ \<Rightarrow> Return (Inr tx)
                 | None \<Rightarrow> Return (Inr (tx(rootBucket s \<mapsto> root(sensorID \<mapsto> []))))))"

definition StoreValues :: "json \<Rightarrow> Store \<Rightarrow> world \<Rightarrow> db \<Rightarrow> string \<Rightarrow> SensorValues \<Rightarrow> (error option \<times> db) outcome" where
  "StoreValues J s w d sensorID values =
     Update w d (\<lambda>tx.
       case tx (rootBucket s) of
         None \<Rightarrow> Panic
       | Some root \<Rightarrow>
          (let b = root sensorID;
               now = Now w;
               key = Format (Truncate now (resolution s))
           in case Marshal J values of
                Inl err \<Rightarrow> Return (Inl err)
              | Inr val \<Rightarrow>
                 (case b of
                    None \<Rightarrow> Panic
                  | Some bk \<Rightarrow>
                     (case Put bk key val of
                        Inl err \<Rightarrow> Return (Inl err)
                      | Inr bk' \<Rightarrow> Return (Inr (tx(rootBucket s \<mapsto> root(sensorID \<mapsto> bk'))))))))"

text \<open>The writer routine, on the sequence of values it receives before the channel is
  closed, each with the world its write meets. The result of \<open>StoreValues\<close> is
  dropped; the log lists it for every call made.\<close>

fun storeValuesRoutine :: "json \<Rightarrow> Store \<Rightarrow> string \<Rightarrow> db \<Rightarrow> (world \<times> SensorValues) list \<Rightarrow> (error option list \<times> db) outcome" where
  "storeValuesRoutine J s sensorID d [] = Return ([], d)"
| "storeValuesRoutine J s sensorID d ((w, values) # c) =
     (case StoreValues J s w d sensorID values of
        Panic \<Rightarrow> Panic
      | Return (err, d') \<Rightarrow>
         (case storeValuesRoutine J s sensorID d' c of
            Panic \<Rightarrow> Panic
          | Return (log, d'') \<Rightarrow> Return (err # log, d'')))"

definition convertToValues :: "json \<Rightarrow> string \<Rightarrow> string \<Rightarrow> error + TimedSensorValues" where
  "convertToValues J k v =
     (case Parse k of
        Inl err \<Rightarrow> Inl err
      | Inr timestamp \<Rightarrow>
         (case Unmarshal J v of
            Inl err \<Rightarrow> Inl err
          | Inr values \<Rightarrow> Inr \<lparr>Timestamp = timestamp, Values = values\<rparr>))"

definition ReadLastValue :: "json \<Rightarrow> Store \<Rightarrow> world \<Rightarrow> db \<Rightarrow> string \<Rightarrow> (TimedSensorValues option \<times> error option) outcome" where
  "ReadLastValue J s w d sensorID =
     (case beginError w of
        Some e \<Rightarrow> Return (None, Some e)
      | None \<Rightarrow>
         (case d (rootBucket s) of
            None \<Rightarrow> Panic
          | Some root \<Rightarrow>
             (case root sensorID of
                None \<Rightarrow> Panic
              | Some b \<Rightarrow>
                 (case convertToValues J (fst (Last b)) (snd (Last b)) of
                    Inl err \<Rightarrow> Return (None, Some err)
                  | Inr result \<Rightarrow> Return (Some result, None)))))"

text \<open>The loop of \<open>ReadValues\<close> over the cursor, from the entry \<open>Seek\<close> found.\<close>

fun readLoop :: "json \<Rightarrow> Time \<Rightarrow> bucket \<Rightarrow> TimedSensorValues list \<Rightarrow> TimedSensorValues list \<times> error option" where
  "readLoop J endTime [] valuesList = (valuesList, None)"
| "readLoop J endTime ((k, v) # c) valuesList =
     (if length k = 0 then (valuesList, None)
      else case Parse k of
        Inl err \<Rightarrow> (valuesList, Some err)
      | Inr currentKey \<Rightarrow>
         (if After currentKey endTime then (valuesList, None)
          else (case convertToValues J k v of
                  Inl err \<Rightarrow> (valuesList, Some err)
                | Inr values \<Rightarrow> readLoop J endTime c (valuesList @ [values]))))"

definition ReadValues :: "json \<Rightarrow> Store \<Rightarrow> world \<Rightarrow> db \<Rightarrow> string \<Rightarrow> Duration \<Rightarrow> (TimedSensorValues list \<times> error option) outcome" where
  "ReadValues J s w d sensorID duration =
     (let now = Now w;
          endTime = Truncate now (resolution s);
          start = (if 0 < duration
                   then Format (Truncate (Add now (- duration)) (resolution s))
                   else Format (Truncate (Add now duration) (resolution s)))
      in case beginError w of
           Some e \<Rightarrow> Return ([], Some e)
         | None \<Rightarrow>
            (case d (rootBucket s) of
               None \<Rightarrow> Panic
             | Some root \<Rightarrow>
                (case root sensorID of
                   None \<Rightarrow> Panic
                 | Some b \<Rightarrow> Return (readLoop J endTime (Seek b start) []))))"

section \<open>Notions used to state the properties\<close>

text \<open>\<open>t.UTC()\<close>: the same instant, displayed in UTC.\<close>

definition inUTC :: "Time \<Rightarrow> Time" where
  "inUTC t = t\<lparr>loc := UTC\<rparr>"

text \<open>The key \<open>StoreValues\<close> writes in a given world.\<close>

definition keyOf :: "Store \<Rightarrow> world \<Rightarrow> string" where
  "keyOf s w = Format (Truncate (Now w) (resolution s))"

text \<open>The engine keeps the keys of a bucket strictly ascending.\<close>

definition ordered :: "bucket \<Rightarrow> bool" where
  "ordered b = sorted_wrt (<) (map fst b)"

definition wellFormed :: "db \<Rightarrow> bool" where
  "wellFormed d = (\<forall>name root sensorID b. d name = Some root \<longrightarrow> root sensorID = Some b \<longrightarrow> ordered b)"

text \<open>The sensor's bucket, when both it and the root bucket exist.\<close>

definition sensorEntries :: "Store \<Rightarrow> db \<Rightarrow> string \<Rightarrow> bucket option" where
  "sensorEntries s d sensorID =
     (case d (rootBucket s) of None \<Rightarrow> None | Some root \<Rightarrow> root sensorID)"

text \<open>The databases a sequence of returning \<open>StoreValues\<close> calls leads to.\<close>

inductive reachable :: "json \<Rightarrow> Store \<Rightarrow> db \<Rightarrow> db \<Rightarrow> bool" for J s d where
  reach_start: "reachable J s d d"
| reach_write: "reachable J s d d1 \<Longrightarrow> StoreValues J s w d1 sensorID values = Return (err, d2) \<Longrightarrow>
          reachable J s d d2"

subsection \<open>Sample inputs\<close>

text \<open>
  The readings of the scenario, as bit patterns: 21.5, 55, 22 and 54. The sample codec
  tabulates \<open>encoding/json\<close> on them; what it answers elsewhere is a placeholder.
\<close>

definition f21_5 :: float32 where "f21_5 = 0x41AC0000"
definition f55 :: float32 where "f55 = 0x425C0000"
definition f22 :: float32 where "f22 = 0x41B00000"
definition f54 :: float32 where "f54 = 0x42580000"
definition fNaN :: float32 where "fNaN = 0x7FC00000"

definition reading1 :: SensorValues where
  "reading1 = \<lparr>Temperature = f21_5, Humidity = f55\<rparr>"

definition reading2 :: SensorValues where
  "reading2 = \<lparr>Temperature = f22, Humidity = f54\<rparr>"

definition readingNaN :: SensorValues where
  "readingNaN = \<lparr>Temperature = fNaN, Humidity = f55\<rparr>"

definition text1 :: string where
  \<open>text1 = ''{"Temperature":21.5,"Humidity":55}''\<close>

definition text2 :: string where
  \<open>text2 = ''{"Temperature":22,"Humidity":54}''\<close>

definition scenarioJSON :: json where
  "scenarioJSON =
     \<lparr>ftoa = (\<lambda>f. if f = f21_5 then ''21.5'' else if f = f55 then ''55''
                  else if f = f22 then ''22'' else if f = f54 then ''54'' else ''0''),
      Unmarshal = (\<lambda>v. if v = text1 then Inr reading1
                        else if v = text2 then Inr reading2
                        else Inl UnmarshalError)\<rparr>"

definition store10 :: Store where
  "store10 = \<lparr>resolution = 10 * Minute, rootBucket = sensorBucket\<rparr>"

text \<open>A world with a healthy engine, \<open>sec\<close> seconds after the zero time.\<close>

definition worldAt :: "Location \<Rightarrow> int \<Rightarrow> world" where
  "worldAt l sec = \<lparr>clock = sec * Second, Local = l, beginError = None, commitError = None\<rparr>"

text \<open>The database after \<open>New\<close> and \<open>StoreValuesChannel\<close> for the sensor
  \<open>test\<close>, and the one after \<open>New\<close> alone.\<close>

definition provisioned :: db where
  "provisioned = [sensorBucket \<mapsto> [''test'' \<mapsto> []]]"

definition unprovisioned :: db where
  "unprovisioned = [sensorBucket \<mapsto> Map.empty]"

text \<open>Central European time around the end of summer time on 2024-10-27, 01:00 UTC.\<close>

definition berlin :: Location where
  "berlin sec = (if sec < 63865587600 then 7200 else 3600)"

section \<open>Reading and writing a namespace\<close>

lemma ReadLastValue_empty:
  assumes "beginError w = None" "sensorEntries s d sensorID = Some []"
  shows "ReadLastValue J s w d sensorID = Return (None, Some ParseError)"
proof -
  have p: "Parse [] = Inl ParseError"
    by (simp add: Parse_def parseCivil_def eval_nat_numeral)
  from assms(2) obtain root where "d (rootBucket s) = Some root" "root sensorID = Some []"
    by (auto simp: sensorEntries_def split: option.splits)
  with assms(1) show ?thesis
    by (simp add: ReadLastValue_def Last_def convertToValues_def p)
qed

lemma provisioned_by_store:
  "New (worldAt UTC 0) Map.empty (10 * Minute) = Return (Inr store10, unprovisioned)"
  "StoreValuesChannel store10 (worldAt UTC 0) unprovisioned ''test'' = Return (None, provisioned)"
  by (simp_all add: New_def StoreValuesChannel_def Update_def worldAt_def store10_def
      unprovisioned_def provisioned_def)

text \<open>
  C1. On the sensor \<open>test\<close>, just provisioned and still without entries,
  \<open>ReadLastValue\<close> returns a nil result together with the error of parsing the empty
  key: the cursor's nil key is handed to \<open>convertToValues\<close> unchecked.
\<close>

theorem ReadLastValue_fresh_sensor_error:
  "ReadLastValue J store10 (worldAt UTC 63839786580) provisioned ''test'' =
     Return (None, Some ParseError)"
  by (rule ReadLastValue_empty)
     (simp_all add: worldAt_def sensorEntries_def provisioned_def store10_def)

text \<open>
  C10. With the root bucket present, each query panics exactly when the sensor's
  namespace does not exist: the nil bucket is dereferenced for its cursor. On an
  existing namespace neither query panics.
\<close>

theorem query_panics_iff_unprovisioned:
  assumes "beginError w = None" "d (rootBucket s) = Some root"
  shows "(ReadLastValue J s w d sensorID = Panic \<longleftrightarrow> root sensorID = None) \<and>
         (ReadValues J s w d sensorID duration = Panic \<longleftrightarrow> root sensorID = None)"
  using assms
  by (auto simp: ReadLastValue_def ReadValues_def Let_def split: option.splits sum.splits)

theorem query_panics_iff_unprovisioned_witness:
  "ReadLastValue scenarioJSON store10 (worldAt UTC 63839786580) unprovisioned ''test'' = Panic \<and>
   ReadValues scenarioJSON store10 (worldAt UTC 63839786580) unprovisioned ''test'' (60 * Minute) = Panic \<and>
   ReadLastValue scenarioJSON store10 (worldAt UTC 63839786580) provisioned ''test'' \<noteq> Panic \<and>
   ReadValues scenarioJSON store10 (worldAt UTC 63839786580) provisioned ''test'' (60 * Minute) \<noteq> Panic"
  using query_panics_iff_unprovisioned [of "worldAt UTC 63839786580" unprovisioned store10
      Map.empty scenarioJSON "''test''" "60 * Minute"]
    query_panics_iff_unprovisioned [of "worldAt UTC 63839786580" provisioned store10
      "[''test'' \<mapsto> []]" scenarioJSON "''test''" "60 * Minute"]
  by (simp add: worldAt_def unprovisioned_def provisioned_def store10_def)

end
